theory Spec2Isabelle
  imports Main
begin

section \<open>pylint\_django/transforms/foreignkey.py: the data the transform reads\<close>

text \<open>
  The transform works on astroid syntax trees. A node is modelled by what the code reads
  of it: its kind (the class \<open>isinstance\<close> tests, with the fields the code reads:
  \<open>name\<close>, \<open>attrname\<close>, \<open>arg\<close>, \<open>value\<close>) and its \<open>parent\<close>, which is
  \<open>None\<close> at the root. The payload of a constant is a Python value; the code compares
  it with \<open>"self"\<close> and calls \<open>rpartition\<close> on it, so the model keeps strings, bytes
  (which have \<open>rpartition\<close> but refuse a \<open>str\<close> separator) and the values that have
  no such attribute.
\<close>

datatype const_value =
    CStr string
  | CBytes string
  | CInt int
  | CBool bool
  | CNone
  | COther

datatype node_kind =
    Module string
  | ClassDef string
  | FunctionDef string
  | Lambda
  | Assign
  | Call
  | Keyword "string option"
  | Name string
  | Attribute string
  | Const const_value
  | ImportFrom string
  | OtherNode

datatype node = Node (kind: node_kind) (parent: "node option")

text \<open>
  The exceptions the transform raises, lets through or catches. \<open>RecursionError\<close> is
  what CPython raises when nested calls exceed the interpreter's recursion limit.
\<close>

datatype error =
    UseInferenceDefault
  | RuntimeError string
  | UnboundLocalError
  | AttributeError
  | TypeError
  | RecursionError
  | AstroidImportError
  | ParentMissingError
  | LookupError
  | ImproperlyConfigured

text \<open>
  What astroid's inference yields for an expression, as far as \<open>instantiate_class\<close>
  tells the values apart: a class, an instance of a class (anything that proxies its
  class), \<open>Uninferable\<close>, and a value without that method (a module, a function).
\<close>

datatype inferred =
    ClassValue node
  | InstanceOf node
  | Uninferable
  | NoInstantiate

datatype infer_outcome =
    RaisesInferenceError
  | Yields "inferred list"

text \<open>A module of the astroid cache: its dotted \<open>name\<close>, the keys of \<open>locals\<close>, and
  \<open>lookup(name)[1]\<close>, the statements astroid finds for a name in the module.\<close>

record astroid_module =
  mname :: string
  mlocals :: "string set"
  mlookup :: "string \<Rightarrow> node list"

record keyword =
  kw_arg :: "string option"
  kw_value :: node

text \<open>The call the transform is registered for: \<open>node.func\<close>, \<open>node.args\<close>,
  \<open>node.keywords\<close> (the field \<open>call_keywords\<close>) and \<open>node.parent\<close>.\<close>

record call =
  func :: node
  args :: "node list"
  call_keywords :: "keyword list"
  call_parent :: "node option"

text \<open>
  What the transform calls outside this file: \<open>pylint_django.utils.node_is_subclass\<close>,
  astroid (\<open>infer\<close>, \<open>MANAGER.astroid_cache\<close>, \<open>do_import_module\<close>) and Django
  (\<open>django.setup\<close>, which raises \<open>ImproperlyConfigured\<close> without settings;
  \<open>apps.get_app_config\<close> and \<open>get_model\<close>, which raise \<open>LookupError\<close>; the
  \<open>__module__\<close> of the model found). They are parameters of the model.
\<close>

record host =
  node_is_subclass :: "node \<Rightarrow> string list \<Rightarrow> bool"
  infer :: "node \<Rightarrow> infer_outcome"
  astroid_cache :: "astroid_module list"
  do_import_module :: "node \<Rightarrow> astroid_module option"
  django_configured :: bool
  get_app_config :: "string \<Rightarrow> (string \<Rightarrow> string option) option"

section \<open>Python and astroid primitives\<close>

text \<open>\<open>s.endswith(suf)\<close>.\<close>

definition endswith :: "string \<Rightarrow> string \<Rightarrow> bool" where
  "endswith s suf = (length suf \<le> length s \<and> drop (length s - length suf) s = suf)"

text \<open>\<open>s.rpartition(sep)\<close> for a separator of one character: the part before the last
  occurrence, the separator, the part after it; two empty strings and \<open>s\<close> when the
  separator does not occur.\<close>

definition rpartition :: "string \<Rightarrow> char \<Rightarrow> string \<times> string \<times> string" where
  "rpartition s sep =
     (if sep \<in> set s
      then (rev (tl (dropWhile (\<lambda>c. c \<noteq> sep) (rev s))), [sep],
            rev (takeWhile (\<lambda>c. c \<noteq> sep) (rev s)))
      else ([], [], s))"

text \<open>Attribute access on a value that may be \<open>None\<close>: \<open>x.parent\<close> and \<open>x.name\<close>
  raise \<open>AttributeError\<close> on \<open>None\<close>, and \<open>x.name\<close> on a node that has no name
  (astroid names every lambda \<open><lambda>\<close>).\<close>

definition getattr_parent :: "node option \<Rightarrow> error + node option" where
  "getattr_parent x = (case x of None \<Rightarrow> Inl AttributeError | Some n \<Rightarrow> Inr (parent n))"

definition getattr_name :: "node option \<Rightarrow> error + string" where
  "getattr_name x =
     (case x of
        None \<Rightarrow> Inl AttributeError
      | Some n \<Rightarrow>
          (case kind n of
             Module s \<Rightarrow> Inr s
           | ClassDef s \<Rightarrow> Inr s
           | FunctionDef s \<Rightarrow> Inr s
           | Lambda \<Rightarrow> Inr ''<lambda>''
           | Name s \<Rightarrow> Inr s
           | _ \<Rightarrow> Inl AttributeError))"

definition is_frame :: "node \<Rightarrow> bool" where
  "is_frame n =
     (case kind n of
        Module _ \<Rightarrow> True | ClassDef _ \<Rightarrow> True | FunctionDef _ \<Rightarrow> True | Lambda \<Rightarrow> True
      | _ \<Rightarrow> False)"

definition is_Module :: "node \<Rightarrow> bool" where
  "is_Module n = (case kind n of Module _ \<Rightarrow> True | _ \<Rightarrow> False)"

definition is_ClassDef :: "node \<Rightarrow> bool" where
  "is_ClassDef n = (case kind n of ClassDef _ \<Rightarrow> True | _ \<Rightarrow> False)"

definition is_ImportFrom :: "node \<Rightarrow> bool" where
  "is_ImportFrom n = (case kind n of ImportFrom _ \<Rightarrow> True | _ \<Rightarrow> False)"

text \<open>astroid's \<open>NodeNG.frame()\<close>: the node itself when it is a module, class, function
  or lambda, else the frame of its parent; \<open>ParentMissingError\<close> at a root that is no
  frame.\<close>

fun frame :: "node \<Rightarrow> error + node" where
  "frame (Node k p) =
     (if is_frame (Node k p) then Inr (Node k p)
      else (case p of None \<Rightarrow> Inl ParentMissingError | Some q \<Rightarrow> frame q))"

text \<open>\<open>ClassDef.instantiate_class()\<close>, and what the attribute is on the other values:
  an instance hands it to its class, \<open>Uninferable\<close> answers itself to everything.\<close>

fun instantiate_class :: "inferred \<Rightarrow> error + inferred" where
  "instantiate_class (ClassValue c) = Inr (InstanceOf c)"
| "instantiate_class (InstanceOf c) = Inr (InstanceOf c)"
| "instantiate_class Uninferable = Inr Uninferable"
| "instantiate_class NoInstantiate = Inl AttributeError"

section \<open>The transform\<close>

subsection \<open>\<open>is_foreignkey_in_class\<close> (lines 9 to 27)\<close>

definition is_foreignkey_in_class :: "host \<Rightarrow> call \<Rightarrow> bool" where
  "is_foreignkey_in_class H node =
     (case call_parent node of
        None \<Rightarrow> False
      | Some p \<Rightarrow>
          if kind p \<noteq> Assign then False
          else
            (case parent p of
               None \<Rightarrow> False
             | Some pp \<Rightarrow>
                 if \<not> is_ClassDef pp then False
                 else if \<not> node_is_subclass H pp [''django.db.models.base.Model'', ''.Model'']
                 then False
                 else
                   (case kind (func node) of
                      Attribute attrname \<Rightarrow> attrname \<in> {''OneToOneField'', ''ForeignKey''}
                    | Name name \<Rightarrow> name \<in> {''OneToOneField'', ''ForeignKey''}
                    | _ \<Rightarrow> False)))"

subsection \<open>\<open>_get_model_class_defs_from_module\<close> (lines 30 to 38)\<close>

text \<open>
  The function calls itself for every \<open>from X import Y\<close> statement that
  \<open>module.lookup(model_name)[1]\<close> lists, with nothing that remembers the modules
  already seen. The first argument after the host is the number of nested calls of the
  function the interpreter's stack still has room for: a call with none left raises
  \<open>RecursionError\<close>. \<open>class_defs_loop\<close> is the \<open>for\<close> loop of the body, which
  returns \<open>class_defs\<close> for the statements still to visit.
\<close>

function (sequential)
  get_model_class_defs_from_module ::
    "host \<Rightarrow> nat \<Rightarrow> astroid_module \<Rightarrow> string \<Rightarrow> string \<Rightarrow> error + node list"
and class_defs_loop ::
    "host \<Rightarrow> nat \<Rightarrow> node list \<Rightarrow> string \<Rightarrow> string \<Rightarrow> error + node list"
where
  "get_model_class_defs_from_module H 0 module model_name module_name = Inl RecursionError"
| "get_model_class_defs_from_module H (Suc d) module model_name module_name =
     class_defs_loop H d (mlookup module model_name) model_name module_name"
| "class_defs_loop H d [] model_name module_name = Inr []"
| "class_defs_loop H d (module_node # rest) model_name module_name =
     (if is_ClassDef module_node
         \<and> node_is_subclass H module_node [''django.db.models.base.Model'']
      then
        (case class_defs_loop H d rest model_name module_name of
           Inl e \<Rightarrow> Inl e
         | Inr class_defs \<Rightarrow> Inr (module_node # class_defs))
      else if is_ImportFrom module_node then
        (case do_import_module H module_node of
           None \<Rightarrow> Inl AstroidImportError
         | Some imported_module \<Rightarrow>
             (case get_model_class_defs_from_module H d imported_module model_name module_name of
                Inl e \<Rightarrow> Inl e
              | Inr extended \<Rightarrow>
                  (case class_defs_loop H d rest model_name module_name of
                     Inl e \<Rightarrow> Inl e
                   | Inr class_defs \<Rightarrow> Inr (extended @ class_defs))))
      else class_defs_loop H d rest model_name module_name)"
  by pat_completeness auto
termination
  by (relation "measures
        [\<lambda>x. case x of Inl (H, d, m, a, b) \<Rightarrow> 2 * d | Inr (H, d, ns, a, b) \<Rightarrow> 2 * d + 1,
         \<lambda>x. case x of Inl (H, d, m, a, b) \<Rightarrow> 0 | Inr (H, d, ns, a, b) \<Rightarrow> length ns]") auto

subsection \<open>\<open>_module_name_from_django_model_resolution\<close> (lines 41 to 50)\<close>

definition module_name_from_django_model_resolution ::
    "host \<Rightarrow> string \<Rightarrow> string \<Rightarrow> error + string" where
  "module_name_from_django_model_resolution H model_name module_name =
     (if \<not> django_configured H then Inl ImproperlyConfigured
      else
        (case get_app_config H module_name of
           None \<Rightarrow> Inl LookupError
         | Some app \<Rightarrow>
             (case app model_name of
                None \<Rightarrow> Inl LookupError
              | Some model_module \<Rightarrow> Inr model_module)))"

subsection \<open>\<open>infer_key_classes\<close> (lines 53 to 134)\<close>

text \<open>Lines 58 to 61: the positional arguments, then the values of the keywords named
  \<open>to\<close>.\<close>

definition all_args :: "call \<Rightarrow> node list" where
  "all_args node =
     args node @ map kw_value (filter (\<lambda>kw. kw_arg kw = Some ''to'') (call_keywords node))"

text \<open>
  Lines 78 to 91, the \<open>try\<close> block of a constant argument. It yields
  \<open>(module_name, model_name)\<close>; \<open>Inl AttributeError\<close> is the exception the
  \<open>except\<close> clause turns into \<open>break\<close>, and \<open>Inl TypeError\<close>
  (\<open>bytes.rpartition\<close> with a \<open>str\<close> separator) is not caught.
\<close>

definition textual_reference :: "node \<Rightarrow> error + string \<times> string" where
  "textual_reference arg =
     (case kind arg of
        Const v \<Rightarrow>
          if v = CStr ''self'' then
            (if (case parent arg of
                   None \<Rightarrow> False
                 | Some kwnode \<Rightarrow> kind kwnode = Keyword (Some ''to''))
             then
               (case getattr_parent (parent arg) of Inl e \<Rightarrow> Inl e | Inr p2 \<Rightarrow>
               (case getattr_parent p2 of Inl e \<Rightarrow> Inl e | Inr p3 \<Rightarrow>
               (case getattr_parent p3 of Inl e \<Rightarrow> Inl e | Inr p4 \<Rightarrow>
               (case getattr_name p4 of Inl e \<Rightarrow> Inl e | Inr model_name \<Rightarrow>
                  Inr ([], model_name)))))
             else
               (case getattr_parent (parent arg) of Inl e \<Rightarrow> Inl e | Inr p2 \<Rightarrow>
               (case getattr_parent p2 of Inl e \<Rightarrow> Inl e | Inr p3 \<Rightarrow>
               (case getattr_name p3 of Inl e \<Rightarrow> Inl e | Inr model_name \<Rightarrow>
                  Inr ([], model_name)))))
          else
            (case v of
               CStr s \<Rightarrow>
                 (case rpartition s (CHR ''.'') of
                    (module_name, _, model_name) \<Rightarrow> Inr (module_name, model_name))
             | CBytes _ \<Rightarrow> Inl TypeError
             | _ \<Rightarrow> Inl AttributeError)
      | _ \<Rightarrow> Inl AttributeError)"

text \<open>Lines 96 to 98: from a frame up to the module,
  \<open>while not isinstance(current_module, nodes.Module):
  current_module = current_module.parent.frame()\<close>.\<close>

function current_module_loop :: "node \<Rightarrow> error + node" where
  "current_module_loop current_module =
     (if is_Module current_module then Inr current_module
      else
        (case parent current_module of
           None \<Rightarrow> Inl AttributeError
         | Some p \<Rightarrow>
             (case frame p of
                Inl e \<Rightarrow> Inl e
              | Inr f \<Rightarrow> current_module_loop f)))"
  by pat_completeness auto

termination
proof (relation "measure size")
  show "wf (measure size)" by simp
next
  fix current_module :: node and p f
  assume up: "parent current_module = Some p" and fr: "frame p = Inr f"
  have frame_size: "frame n = Inr g \<Longrightarrow> size g \<le> size n" for n g
  proof (induction n rule: frame.induct)
    case (1 k q)
    show ?case
    proof (cases "is_frame (Node k q)")
      case True
      with "1.prems" show ?thesis by simp
    next
      case False
      with "1.prems" obtain r where q: "q = Some r" and r: "frame r = Inr g"
        by (cases q) auto
      from "1.IH" [OF False q r] q show ?thesis by simp
    qed
  qed
  have "size p < size current_module"
    using up by (cases current_module) auto
  with frame_size [OF fr] show "(f, current_module) \<in> measure size" by simp
qed

declare current_module_loop.simps [simp del]

text \<open>
  Lines 95 to 116: the module in which the class is looked for. An empty
  \<open>module_name\<close> becomes the name of the module around the call; one that does not
  end with \<open>models\<close> is handed to Django as an app label.
\<close>

text \<open>The message of lines 113 to 115 (Python joins the adjacent literals).\<close>

definition settings_message :: string where
  "settings_message =
     ''DJANGO_SETTINGS_MODULE required for resolving ForeignKey ''
     @ ''string references, see Usage section in README at ''
     @ ''https://pypi.org/project/pylint-django/!''"

definition module_hint :: "host \<Rightarrow> call \<Rightarrow> string \<Rightarrow> string \<Rightarrow> error + string" where
  "module_hint H node module_name model_name =
     (if module_name = [] then
        (case frame (Node Call (call_parent node)) of
           Inl e \<Rightarrow> Inl e
         | Inr current_module \<Rightarrow>
             (case current_module_loop current_module of
                Inl e \<Rightarrow> Inl e
              | Inr m \<Rightarrow> getattr_name (Some m)))
      else if \<not> endswith module_name ''models'' then
        (case module_name_from_django_model_resolution H model_name module_name of
           Inr resolved \<Rightarrow> Inr resolved
         | Inl LookupError \<Rightarrow> Inr (module_name @ ''.models'')
         | Inl ImproperlyConfigured \<Rightarrow>
             Inl (RuntimeError settings_message)
         | Inl e \<Rightarrow> Inl e)
      else Inr module_name)"

text \<open>Lines 123 to 131: the loop over the modules of the cache. \<open>Inr (Some c)\<close> is
  the \<open>return\<close> of line 131 with \<open>c = class_defs[0]\<close>, \<open>Inr None\<close> the end of
  the loop.\<close>

fun cache_loop ::
    "host \<Rightarrow> nat \<Rightarrow> astroid_module list \<Rightarrow> string \<Rightarrow> string \<Rightarrow> error + node option" where
  "cache_loop H d [] model_name module_name = Inr None"
| "cache_loop H d (module # modules) model_name module_name =
     (if model_name \<in> mlocals module \<and> endswith (mname module) module_name then
        (case get_model_class_defs_from_module H d module model_name module_name of
           Inl e \<Rightarrow> Inl e
         | Inr class_defs \<Rightarrow>
             (case class_defs of
                c # _ \<Rightarrow> Inr (Some c)
              | [] \<Rightarrow> cache_loop H d modules model_name module_name))
      else cache_loop H d modules model_name module_name)"

text \<open>The local variable \<open>key_cls\<close>: not yet assigned, or assigned \<open>None\<close> or an
  inferred value.\<close>

datatype key_cls_var = Unbound | Bound "inferred option"

text \<open>Line 134, reached by \<open>break\<close>:
  \<open>return iter([key_cls.instantiate_class()])\<close>.\<close>

definition after_loop :: "key_cls_var \<Rightarrow> error + inferred list" where
  "after_loop key_cls =
     (case key_cls of
        Unbound \<Rightarrow> Inl UnboundLocalError
      | Bound None \<Rightarrow> Inl AttributeError
      | Bound (Some v) \<Rightarrow>
          (case instantiate_class v of Inl e \<Rightarrow> Inl e | Inr i \<Rightarrow> Inr [i]))"

text \<open>
  Lines 63 to 134: the loop over the candidates, with the state of \<open>key_cls\<close>. The
  empty list is the \<open>else\<close> of the \<open>for\<close> (line 133). The returned list is the
  content of the iterator the function returns. The argument \<open>d\<close> is the stack depth
  handed to \<open>_get_model_class_defs_from_module\<close>.
\<close>

fun infer_key_classes_loop ::
    "host \<Rightarrow> nat \<Rightarrow> call \<Rightarrow> key_cls_var \<Rightarrow> node list \<Rightarrow> error + inferred list" where
  "infer_key_classes_loop H d node key_cls [] = Inl UseInferenceDefault"
| "infer_key_classes_loop H d node key_cls (arg # rest) =
     (case kind arg of
        Name _ \<Rightarrow>
          (case infer H arg of
             RaisesInferenceError \<Rightarrow> infer_key_classes_loop H d node (Bound None) rest
           | Yields [] \<Rightarrow> infer_key_classes_loop H d node (Bound None) rest
           | Yields (inferred # _) \<Rightarrow> after_loop (Bound (Some inferred)))
      | Attribute _ \<Rightarrow>
          (case infer H arg of
             RaisesInferenceError \<Rightarrow> infer_key_classes_loop H d node (Bound None) rest
           | Yields [] \<Rightarrow> infer_key_classes_loop H d node (Bound None) rest
           | Yields (inferred # _) \<Rightarrow> after_loop (Bound (Some inferred)))
      | Const _ \<Rightarrow>
          (case textual_reference arg of
             Inl AttributeError \<Rightarrow> after_loop key_cls
           | Inl e \<Rightarrow> Inl e
           | Inr (module_name, model_name) \<Rightarrow>
               (case module_hint H node module_name model_name of
                  Inl e \<Rightarrow> Inl e
                | Inr module_name' \<Rightarrow>
                    (case cache_loop H d (astroid_cache H) model_name module_name' of
                       Inl e \<Rightarrow> Inl e
                     | Inr (Some c) \<Rightarrow>
                         (case instantiate_class (ClassValue c) of
                            Inl e \<Rightarrow> Inl e
                          | Inr i \<Rightarrow> Inr [i])
                     | Inr None \<Rightarrow> infer_key_classes_loop H d node key_cls rest)))
      | _ \<Rightarrow> infer_key_classes_loop H d node key_cls rest)"

definition infer_key_classes :: "host \<Rightarrow> nat \<Rightarrow> call \<Rightarrow> error + inferred list" where
  "infer_key_classes H d node = infer_key_classes_loop H d node Unbound (all_args node)"

section \<open>Notions used in the statements\<close>

text \<open>
  A candidate \<open>passes\<close> when the loop goes on to the next one: a name or attribute whose
  inference fails or yields nothing, a constant whose class lookup finds no class, or an
  argument of any other kind. \<open>key_cls_after\<close> is the state of \<open>key_cls\<close> after a
  run of candidates that all passed.
\<close>

definition passes :: "host \<Rightarrow> nat \<Rightarrow> call \<Rightarrow> node \<Rightarrow> bool" where
  "passes H d node arg =
     (case kind arg of
        Name _ \<Rightarrow> infer H arg = RaisesInferenceError \<or> infer H arg = Yields []
      | Attribute _ \<Rightarrow> infer H arg = RaisesInferenceError \<or> infer H arg = Yields []
      | Const _ \<Rightarrow>
          (case textual_reference arg of
             Inl _ \<Rightarrow> False
           | Inr (module_name, model_name) \<Rightarrow>
               (case module_hint H node module_name model_name of
                  Inl _ \<Rightarrow> False
                | Inr hint \<Rightarrow> cache_loop H d (astroid_cache H) model_name hint = Inr None))
      | _ \<Rightarrow> True)"

fun key_cls_after :: "key_cls_var \<Rightarrow> node list \<Rightarrow> key_cls_var" where
  "key_cls_after key_cls [] = key_cls"
| "key_cls_after key_cls (arg # rest) =
     key_cls_after
       (case kind arg of Name _ \<Rightarrow> Bound None | Attribute _ \<Rightarrow> Bound None | _ \<Rightarrow> key_cls) rest"

text \<open>A forwarding edge for a name: the lookup of the name in \<open>m\<close> lists a
  \<open>from X import Y\<close> statement that imports \<open>m'\<close>.\<close>

definition forwards :: "host \<Rightarrow> string \<Rightarrow> astroid_module \<Rightarrow> astroid_module \<Rightarrow> bool" where
  "forwards H model_name m m' =
     (\<exists>n \<in> set (mlookup m model_name). is_ImportFrom n \<and> do_import_module H n = Some m')"

text \<open>The model classes a module gives for a name: those its own lookup lists, and those
  of the modules it forwards to.\<close>

inductive reaches :: "host \<Rightarrow> string \<Rightarrow> astroid_module \<Rightarrow> node \<Rightarrow> bool"
  for H :: host and model_name :: string where
  listed:
    "c \<in> set (mlookup m model_name) \<Longrightarrow> is_ClassDef c \<Longrightarrow>
     node_is_subclass H c [''django.db.models.base.Model''] \<Longrightarrow> reaches H model_name m c"
| forwarded:
    "n \<in> set (mlookup m model_name) \<Longrightarrow> is_ImportFrom n \<Longrightarrow>
     do_import_module H n = Some m' \<Longrightarrow> reaches H model_name m' c \<Longrightarrow>
     reaches H model_name m c"

code_pred reaches .

text \<open>The nearest module among a node and its ancestors: the module that lexically
  encloses it, which is also the module a class is defined in.\<close>

fun nearest_module :: "node \<Rightarrow> node option" where
  "nearest_module (Node k p) =
     (if is_Module (Node k p) then Some (Node k p)
      else (case p of None \<Rightarrow> None | Some q \<Rightarrow> nearest_module q))"

section \<open>Example trees and hosts\<close>

text \<open>
  Module \<open>app.models\<close> with the model classes \<open>A\<close> and \<open>B\<close>; inside \<open>A\<close> the
  statement \<open>owner = models.ForeignKey(...)\<close>. \<open>ex_call_node\<close> is the call as its
  arguments see it (their \<open>parent\<close>).
\<close>

definition ex_module :: node where
  "ex_module = Node (Module ''app.models'') None"

definition ex_class_A :: node where
  "ex_class_A = Node (ClassDef ''A'') (Some ex_module)"

definition ex_class_B :: node where
  "ex_class_B = Node (ClassDef ''B'') (Some ex_module)"

definition ex_assign :: node where
  "ex_assign = Node Assign (Some ex_class_A)"

definition ex_call_node :: node where
  "ex_call_node = Node Call (Some ex_assign)"

definition ex_call :: "node list \<Rightarrow> keyword list \<Rightarrow> call" where
  "ex_call as kws =
     \<lparr>func = Node (Attribute ''ForeignKey'') (Some ex_call_node), args = as,
      call_keywords = kws, call_parent = Some ex_assign\<rparr>"

text \<open>Arguments of that call: a string, a name, an integer, and \<open>to="self"\<close>.\<close>

definition ex_str :: "string \<Rightarrow> node" where
  "ex_str s = Node (Const (CStr s)) (Some ex_call_node)"

definition ex_name :: "string \<Rightarrow> node" where
  "ex_name s = Node (Name s) (Some ex_call_node)"

definition ex_int :: "int \<Rightarrow> node" where
  "ex_int i = Node (Const (CInt i)) (Some ex_call_node)"

definition ex_to_self :: keyword where
  "ex_to_self =
     \<lparr>kw_arg = Some ''to'',
      kw_value = Node (Const (CStr ''self''))
                   (Some (Node (Keyword (Some ''to'')) (Some ex_call_node)))\<rparr>"

definition ex_app_models :: astroid_module where
  "ex_app_models =
     \<lparr>mname = ''app.models'', mlocals = {''A'', ''B''},
      mlookup = (\<lambda>n. if n = ''A'' then [ex_class_A] else if n = ''B'' then [ex_class_B] else [])\<rparr>"

text \<open>A host without Django settings, whose cache holds \<open>app.models\<close>, where every
  class is a model and the name \<open>A\<close> infers to the class \<open>A\<close>.\<close>

definition ex_host :: host where
  "ex_host =
     \<lparr>node_is_subclass = (\<lambda>n bases. is_ClassDef n),
      infer = (\<lambda>n. if kind n = Name ''A'' then Yields [ClassValue ex_class_A]
                   else RaisesInferenceError),
      astroid_cache = [ex_app_models],
      do_import_module = (\<lambda>n. None),
      django_configured = False,
      get_app_config = (\<lambda>label. None)\<rparr>"

text \<open>Two more modules with classes of the same names, \<open>otherapp.models\<close> and
  \<open>custommodels\<close>, in the cache after \<open>app.models\<close>; and the same host with Django
  configured, where no app is registered.\<close>

definition ex_other_module :: node where
  "ex_other_module = Node (Module ''otherapp.models'') None"

definition ex_other_A :: node where
  "ex_other_A = Node (ClassDef ''A'') (Some ex_other_module)"

definition ex_other_B :: node where
  "ex_other_B = Node (ClassDef ''B'') (Some ex_other_module)"

definition ex_other_models :: astroid_module where
  "ex_other_models =
     \<lparr>mname = ''otherapp.models'', mlocals = {''A'', ''B''},
      mlookup = (\<lambda>n. if n = ''A'' then [ex_other_A] else if n = ''B'' then [ex_other_B] else [])\<rparr>"

definition ex_custom_B :: node where
  "ex_custom_B = Node (ClassDef ''B'') (Some (Node (Module ''custommodels'') None))"

definition ex_custommodels :: astroid_module where
  "ex_custommodels =
     \<lparr>mname = ''custommodels'', mlocals = {''B''},
      mlookup = (\<lambda>n. if n = ''B'' then [ex_custom_B] else [])\<rparr>"

definition ex_host_two_apps :: host where
  "ex_host_two_apps =
     ex_host\<lparr>astroid_cache := [ex_app_models, ex_other_models, ex_custommodels]\<rparr>"

definition ex_host_configured :: host where
  "ex_host_configured = ex_host_two_apps\<lparr>django_configured := True\<rparr>"

text \<open>Two modules that import \<open>B\<close> from each other:
  \<open>a\<close> holds \<open>from b import B\<close> and \<open>b\<close> holds \<open>from a import B\<close>.\<close>

definition ex_cyclic_a :: astroid_module where
  "ex_cyclic_a =
     \<lparr>mname = ''a'', mlocals = {''B''},
      mlookup = (\<lambda>n. if n = ''B'' then [Node (ImportFrom ''b'') (Some (Node (Module ''a'') None))]
                      else [])\<rparr>"

definition ex_cyclic_b :: astroid_module where
  "ex_cyclic_b =
     \<lparr>mname = ''b'', mlocals = {''B''},
      mlookup = (\<lambda>n. if n = ''B'' then [Node (ImportFrom ''a'') (Some (Node (Module ''b'') None))]
                      else [])\<rparr>"

definition ex_host_cyclic :: host where
  "ex_host_cyclic =
     ex_host\<lparr>astroid_cache := [ex_cyclic_a, ex_cyclic_b],
             do_import_module :=
               (\<lambda>n. if kind n = ImportFrom ''a'' then Some ex_cyclic_a
                    else if kind n = ImportFrom ''b'' then Some ex_cyclic_b else None)\<rparr>"

text \<open>
  A module \<open>app.models\<close> that takes \<open>B\<close> from \<open>other.base\<close> and defines a class
  \<open>B\<close> of its own as the fallback:
  \<^verbatim>\<open>try: from other.base import B\<close> /
  \<^verbatim>\<open>except ImportError: class B(models.Model): ...\<close>.
  Its lookup of \<open>B\<close> lists both statements.
\<close>

definition ex_base_module :: node where
  "ex_base_module = Node (Module ''other.base'') None"

definition ex_base_B :: node where
  "ex_base_B = Node (ClassDef ''B'') (Some ex_base_module)"

definition ex_base :: astroid_module where
  "ex_base =
     \<lparr>mname = ''other.base'', mlocals = {''B''},
      mlookup = (\<lambda>n. if n = ''B'' then [ex_base_B] else [])\<rparr>"

definition ex_fwd_models :: astroid_module where
  "ex_fwd_models =
     \<lparr>mname = ''app.models'', mlocals = {''A'', ''B''},
      mlookup = (\<lambda>n. if n = ''A'' then [ex_class_A]
                      else if n = ''B'' then [Node (ImportFrom ''other.base'') (Some ex_module),
                                             ex_class_B]
                      else [])\<rparr>"

definition ex_host_forwarding :: host where
  "ex_host_forwarding =
     ex_host\<lparr>astroid_cache := [ex_fwd_models, ex_base],
             do_import_module :=
               (\<lambda>n. if kind n = ImportFrom ''other.base'' then Some ex_base else None)\<rparr>"

definition ex_rank :: "astroid_module \<Rightarrow> nat" where
  "ex_rank m = (if mname m = ''other.base'' then 0 else 1)"

text \<open>A top-level module \<open>models\<close> with a model class \<open>A\<close> that refers to itself,
  analysed when the cache already holds \<open>otherapp.models\<close> with a class \<open>A\<close>.\<close>

definition ex_top_module :: node where
  "ex_top_module = Node (Module ''models'') None"

definition ex_top_A :: node where
  "ex_top_A = Node (ClassDef ''A'') (Some ex_top_module)"

definition ex_top_call_node :: node where
  "ex_top_call_node = Node Call (Some (Node Assign (Some ex_top_A)))"

definition ex_top_call :: call where
  "ex_top_call =
     \<lparr>func = Node (Attribute ''ForeignKey'') (Some ex_top_call_node),
      args = [Node (Const (CStr ''self'')) (Some ex_top_call_node)],
      call_keywords = [], call_parent = Some (Node Assign (Some ex_top_A))\<rparr>"

definition ex_top_models :: astroid_module where
  "ex_top_models =
     \<lparr>mname = ''models'', mlocals = {''A''},
      mlookup = (\<lambda>n. if n = ''A'' then [ex_top_A] else [])\<rparr>"

definition ex_host_suffix :: host where
  "ex_host_suffix = ex_host\<lparr>astroid_cache := [ex_other_models, ex_top_models]\<rparr>"

lemmas ex_defs =
  ex_module_def ex_class_A_def ex_class_B_def ex_assign_def ex_call_node_def ex_call_def
  ex_str_def ex_name_def ex_int_def ex_to_self_def ex_app_models_def ex_host_def
  ex_other_module_def ex_other_A_def ex_other_B_def ex_other_models_def ex_custom_B_def
  ex_custommodels_def ex_host_two_apps_def ex_host_configured_def
  ex_cyclic_a_def ex_cyclic_b_def ex_host_cyclic_def
  ex_base_module_def ex_base_B_def ex_base_def ex_fwd_models_def ex_host_forwarding_def
  ex_rank_def
  ex_top_module_def ex_top_A_def ex_top_call_node_def ex_top_call_def ex_top_models_def
  ex_host_suffix_def

text \<open>The equations that evaluate the transform on a concrete call.\<close>

lemmas eval_defs =
  infer_key_classes_def all_args_def textual_reference_def getattr_parent_def getattr_name_def
  module_hint_def module_name_from_django_model_resolution_def current_module_loop.simps
  after_loop_def rpartition_def endswith_def is_frame_def is_Module_def is_ClassDef_def
  is_ImportFrom_def numeral_nat

section \<open>Strings: \<open>rpartition\<close> and \<open>endswith\<close>\<close>

lemma rpartition_last:
  assumes "sep \<notin> set b"
  shows "rpartition (a @ sep # b) sep = (a, [sep], b)"
proof -
  have r: "rev (a @ sep # b) = rev b @ sep # rev a" by simp
  have t: "takeWhile (\<lambda>c. c \<noteq> sep) (rev b @ sep # rev a) = rev b"
    using assms by (subst takeWhile_append2) auto
  have dr: "dropWhile (\<lambda>c. c \<noteq> sep) (rev b @ sep # rev a) = sep # rev a"
    using assms by (subst dropWhile_append2) auto
  show ?thesis unfolding rpartition_def r t dr by simp
qed

lemma rpartition_absent: "sep \<notin> set s \<Longrightarrow> rpartition s sep = ([], [], s)"
  by (simp add: rpartition_def)

lemma dotted_not_self:
  assumes "CHR ''.'' \<notin> set b"
  shows "a @ ''.'' @ b \<noteq> ''self''"
proof
  assume eq: "a @ ''.'' @ b = ''self''"
  have "CHR ''.'' \<in> set (a @ ''.'' @ b)" by simp
  with eq show False by simp
qed

lemma endswith_iff: "endswith s suf \<longleftrightarrow> (\<exists>pre. s = pre @ suf)"
proof
  assume "endswith s suf"
  then have "s = take (length s - length suf) s @ suf"
    by (metis append_take_drop_id endswith_def)
  then show "\<exists>pre. s = pre @ suf" ..
next
  assume "\<exists>pre. s = pre @ suf"
  then show "endswith s suf" by (auto simp: endswith_def)
qed

section \<open>The candidates of the resolver\<close>

lemma textual_reference_dotted:
  assumes "CHR ''.'' \<notin> set className"
  shows "textual_reference (Node (Const (CStr (prefix @ ''.'' @ className))) p)
         = Inr (prefix, className)"
  using assms dotted_not_self [OF assms, of prefix]
    rpartition_last [of "CHR ''.''" className prefix]
  by (simp add: textual_reference_def)

text \<open>A literal whose only dot comes first, like \<open>".B"\<close>, has an empty prefix: it is
  looked up in the module around the call, as a bare name is.\<close>

lemma textual_reference_bare:
  assumes "CHR ''.'' \<notin> set s" and "s \<noteq> ''self''"
  shows "textual_reference (Node (Const (CStr s)) p) = Inr ([], s)"
  using assms by (simp add: textual_reference_def rpartition_absent)

lemma textual_reference_non_string:
  assumes "kind arg = Const v" and "\<forall>s. v \<noteq> CStr s" and "\<forall>s. v \<noteq> CBytes s"
  shows "textual_reference arg = Inl AttributeError"
  using assms by (cases v) (auto simp: textual_reference_def)

text \<open>What the loop does with a constant whose \<open>try\<close> block went through: the module
  hint, then the lookup in the cache, then the next candidate.\<close>

lemma loop_const_step:
  assumes "kind arg = Const v" and "textual_reference arg = Inr (module_name, model_name)"
  shows "infer_key_classes_loop H d node key_cls (arg # rest) =
     (case module_hint H node module_name model_name of
        Inl e \<Rightarrow> Inl e
      | Inr hint \<Rightarrow>
          (case cache_loop H d (astroid_cache H) model_name hint of
             Inl e \<Rightarrow> Inl e
           | Inr (Some c) \<Rightarrow> Inr [InstanceOf c]
           | Inr None \<Rightarrow> infer_key_classes_loop H d node key_cls rest))"
  using assms by (simp split: sum.splits option.splits)

lemma loop_inferred_value:
  assumes "kind arg = Name n \<or> kind arg = Attribute n" and "infer H arg = Yields (v # vs)"
  shows "infer_key_classes_loop H d node key_cls (arg # rest) = after_loop (Bound (Some v))"
  using assms by auto

lemma loop_passes_one:
  assumes "passes H d node arg"
  shows "infer_key_classes_loop H d node key_cls (arg # rest) =
         infer_key_classes_loop H d node (key_cls_after key_cls [arg]) rest"
proof (cases "kind arg")
  case (Const v)
  from assms Const obtain mn cn where tr: "textual_reference arg = Inr (mn, cn)"
    by (cases "textual_reference arg") (auto simp: passes_def)
  from assms Const tr obtain h where mh: "module_hint H node mn cn = Inr h"
    by (cases "module_hint H node mn cn") (auto simp: passes_def)
  from assms Const tr mh have "cache_loop H d (astroid_cache H) cn h = Inr None"
    by (simp add: passes_def)
  with Const tr mh show ?thesis by simp
qed (use assms in \<open>auto simp: passes_def\<close>)

lemma loop_passes:
  "list_all (passes H d node) pre \<Longrightarrow>
   infer_key_classes_loop H d node key_cls (pre @ rest) =
   infer_key_classes_loop H d node (key_cls_after key_cls pre) rest"
proof (induction pre arbitrary: key_cls)
  case Nil
  then show ?case by simp
next
  case (Cons a pre)
  from Cons.prems have a: "passes H d node a" and pre: "list_all (passes H d node) pre"
    by simp_all
  have "infer_key_classes_loop H d node key_cls ((a # pre) @ rest) =
        infer_key_classes_loop H d node (key_cls_after key_cls [a]) (pre @ rest)"
    using loop_passes_one [OF a] by simp
  also have "\<dots> =
        infer_key_classes_loop H d node (key_cls_after (key_cls_after key_cls [a]) pre) rest"
    by (rule Cons.IH [OF pre])
  finally show ?case by simp
qed

text \<open>After candidates that all passed, \<open>key_cls\<close> holds no value.\<close>

lemma key_cls_after_Unbound:
  "key_cls_after Unbound pre = Unbound \<or> key_cls_after Unbound pre = Bound None"
proof -
  have "k = Unbound \<or> k = Bound None \<Longrightarrow>
        key_cls_after k pre = Unbound \<or> key_cls_after k pre = Bound None" for k
    by (induction pre arbitrary: k) (auto split: node_kind.splits)
  then show ?thesis by simp
qed

lemma after_loop_singleton: "after_loop k = Inr vs \<Longrightarrow> length vs = 1"
  by (auto simp: after_loop_def split: key_cls_var.splits option.splits sum.splits)

lemma loop_singleton:
  "infer_key_classes_loop H d node key_cls as = Inr vs \<Longrightarrow> length vs = 1"
proof (induction as arbitrary: key_cls)
  case Nil
  then show ?case by simp
next
  case (Cons a as)
  show ?case
  proof (cases "kind a")
    case (Name n)
    with Cons show ?thesis
      by (auto split: infer_outcome.splits list.splits dest: after_loop_singleton)
  next
    case (Attribute n)
    with Cons show ?thesis
      by (auto split: infer_outcome.splits list.splits dest: after_loop_singleton)
  next
    case (Const v)
    with Cons show ?thesis
      by (auto split: sum.splits error.splits option.splits dest: after_loop_singleton)
  qed (use Cons in auto)
qed

section \<open>The lookup of a class in the cache\<close>

lemma class_defs_loop_returns:
  assumes "\<And>n m'. n \<in> set ns \<Longrightarrow> is_ImportFrom n \<Longrightarrow> do_import_module H n = Some m' \<Longrightarrow>
             (\<exists>ds. get_model_class_defs_from_module H d m' model_name hint = Inr ds)
             \<or> get_model_class_defs_from_module H d m' model_name hint = Inl AstroidImportError"
  shows "(\<exists>ds. class_defs_loop H d ns model_name hint = Inr ds)
         \<or> class_defs_loop H d ns model_name hint = Inl AstroidImportError"
  using assms
proof (induction ns)
  case Nil
  show ?case by simp
next
  case (Cons n ns)
  have rest: "(\<exists>ds. class_defs_loop H d ns model_name hint = Inr ds)
         \<or> class_defs_loop H d ns model_name hint = Inl AstroidImportError"
    by (rule Cons.IH) (use Cons.prems in auto)
  show ?case
  proof (cases "is_ClassDef n \<and> node_is_subclass H n [''django.db.models.base.Model'']")
    case True
    with rest show ?thesis by auto
  next
    case False
    show ?thesis
    proof (cases "is_ImportFrom n")
      case imp: True
      show ?thesis
      proof (cases "do_import_module H n")
        case None
        with False imp show ?thesis by auto
      next
        case (Some m')
        from Cons.prems [of n m'] imp Some
        have "(\<exists>ds. get_model_class_defs_from_module H d m' model_name hint = Inr ds)
             \<or> get_model_class_defs_from_module H d m' model_name hint = Inl AstroidImportError"
          by simp
        with rest False imp Some show ?thesis by auto
      qed
    next
      case noimp: False
      with False rest show ?thesis by auto
    qed
  qed
qed

lemma class_defs_loop_reaches:
  assumes inner: "\<And>m' ds'. get_model_class_defs_from_module H d m' model_name hint = Inr ds' \<Longrightarrow>
             c \<in> set ds' \<Longrightarrow> reaches H model_name m' c"
    and "class_defs_loop H d ns model_name hint = Inr ds" and "c \<in> set ds"
  shows "(c \<in> set ns \<and> is_ClassDef c \<and> node_is_subclass H c [''django.db.models.base.Model''])
       \<or> (\<exists>n\<in>set ns. \<exists>m'. is_ImportFrom n \<and> do_import_module H n = Some m'
              \<and> reaches H model_name m' c)"
  using assms(2,3)
proof (induction ns arbitrary: ds)
  case Nil
  then show ?case by simp
next
  case (Cons n ns)
  show ?case
  proof (cases "is_ClassDef n \<and> node_is_subclass H n [''django.db.models.base.Model'']")
    case True
    with Cons.prems obtain ds' where l: "class_defs_loop H d ns model_name hint = Inr ds'"
      and ds: "ds = n # ds'"
      by (auto split: sum.splits)
    from Cons.prems(2) ds have "c = n \<or> c \<in> set ds'" by auto
    then show ?thesis
    proof
      assume "c = n"
      with True show ?thesis by simp
    next
      assume "c \<in> set ds'"
      from Cons.IH [OF l this] show ?thesis by auto
    qed
  next
    case False
    show ?thesis
    proof (cases "is_ImportFrom n")
      case imp: True
      from Cons.prems(1) False imp obtain m' ext ds'
        where m': "do_import_module H n = Some m'"
          and ext: "get_model_class_defs_from_module H d m' model_name hint = Inr ext"
          and l: "class_defs_loop H d ns model_name hint = Inr ds'"
          and ds: "ds = ext @ ds'"
        by (auto split: option.splits sum.splits)
      from Cons.prems(2) ds have "c \<in> set ext \<or> c \<in> set ds'" by auto
      then show ?thesis
      proof
        assume "c \<in> set ext"
        from inner [OF ext this] imp m' show ?thesis by auto
      next
        assume "c \<in> set ds'"
        from Cons.IH [OF l this] show ?thesis by auto
      qed
    next
      case noimp: False
      with False Cons.prems(1) have l: "class_defs_loop H d ns model_name hint = Inr ds"
        by auto
      from Cons.IH [OF l Cons.prems(2)] show ?thesis by auto
    qed
  qed
qed

lemma class_defs_reach:
  "get_model_class_defs_from_module H d m model_name hint = Inr ds \<Longrightarrow> c \<in> set ds \<Longrightarrow>
   reaches H model_name m c"
proof (induction d arbitrary: m ds)
  case 0
  then show ?case by simp
next
  case (Suc d)
  from Suc.prems(1) have l: "class_defs_loop H d (mlookup m model_name) model_name hint = Inr ds"
    by simp
  have inner: "reaches H model_name m' c"
    if "get_model_class_defs_from_module H d m' model_name hint = Inr ds'" and "c \<in> set ds'"
    for m' ds'
    using that by (rule Suc.IH)
  have "(c \<in> set (mlookup m model_name) \<and> is_ClassDef c
          \<and> node_is_subclass H c [''django.db.models.base.Model''])
       \<or> (\<exists>n\<in>set (mlookup m model_name). \<exists>m'. is_ImportFrom n
              \<and> do_import_module H n = Some m' \<and> reaches H model_name m' c)"
    using inner l Suc.prems(2) by (rule class_defs_loop_reaches)
  then show ?case by (auto intro: reaches.intros)
qed

lemma cache_loop_found:
  "cache_loop H d cache model_name hint = Inr (Some c) \<Longrightarrow>
   \<exists>m\<in>set cache. model_name \<in> mlocals m \<and> endswith (mname m) hint
      \<and> (\<exists>ds. get_model_class_defs_from_module H d m model_name hint = Inr (c # ds))"
proof (induction cache)
  case Nil
  then show ?case by simp
next
  case (Cons m cache)
  show ?case
  proof (cases "model_name \<in> mlocals m \<and> endswith (mname m) hint")
    case False
    with Cons show ?thesis by auto
  next
    case True
    show ?thesis
    proof (cases "get_model_class_defs_from_module H d m model_name hint")
      case (Inl e)
      with True Cons.prems show ?thesis by simp
    next
      case (Inr ds)
      show ?thesis
      proof (cases ds)
        case Nil
        with True Inr Cons show ?thesis by auto
      next
        case (Cons c' ds')
        with True Inr Cons.prems have "c' = c" by simp
        with True Inr Cons show ?thesis by auto
      qed
    qed
  qed
qed

text \<open>On the two modules that import from each other the lookup finds no end: at every
  depth of the stack it raises \<open>RecursionError\<close>.\<close>

lemma cyclic_both:
  "get_model_class_defs_from_module ex_host_cyclic d ex_cyclic_a ''B'' hint = Inl RecursionError
   \<and> get_model_class_defs_from_module ex_host_cyclic d ex_cyclic_b ''B'' hint = Inl RecursionError"
proof (induction d)
  case 0
  show ?case by simp
next
  case (Suc d)
  have a: "get_model_class_defs_from_module ex_host_cyclic (Suc d) ex_cyclic_a ''B'' hint =
        (case get_model_class_defs_from_module ex_host_cyclic d ex_cyclic_b ''B'' hint of
           Inl e \<Rightarrow> Inl e | Inr extended \<Rightarrow> Inr (extended @ []))"
    by (simp add: ex_defs is_ClassDef_def is_ImportFrom_def split: sum.splits)
  have b: "get_model_class_defs_from_module ex_host_cyclic (Suc d) ex_cyclic_b ''B'' hint =
        (case get_model_class_defs_from_module ex_host_cyclic d ex_cyclic_a ''B'' hint of
           Inl e \<Rightarrow> Inl e | Inr extended \<Rightarrow> Inr (extended @ []))"
    by (simp add: ex_defs is_ClassDef_def is_ImportFrom_def split: sum.splits)
  from Suc show ?case unfolding a b by simp
qed

section \<open>The module around a call\<close>

lemma nearest_module_is_Module: "nearest_module n = Some m \<Longrightarrow> is_Module m"
  by (induction n rule: nearest_module.induct) (auto split: if_splits option.splits)

lemma is_Module_is_frame: "is_Module n \<Longrightarrow> is_frame n"
  by (auto simp: is_Module_def is_frame_def split: node_kind.splits)

lemma frame_nearest_module:
  "nearest_module n = Some m \<Longrightarrow> \<exists>f. frame n = Inr f \<and> nearest_module f = Some m"
proof (induction n rule: frame.induct)
  case (1 k p)
  show ?case
  proof (cases "is_frame (Node k p)")
    case True
    with "1.prems" show ?thesis by simp
  next
    case False
    then have nm: "\<not> is_Module (Node k p)" using is_Module_is_frame by blast
    with "1.prems" obtain q where p: "p = Some q" and q: "nearest_module q = Some m"
      by (cases p) auto
    from "1.IH" [OF False p q] False p show ?thesis by simp
  qed
qed

text \<open>The \<open>while\<close> loop of lines 97 and 98 ends at the nearest module.\<close>

lemma current_module_loop_nearest:
  "nearest_module n = Some m \<Longrightarrow> current_module_loop n = Inr m"
proof (induction n rule: current_module_loop.induct)
  case (1 n)
  show ?case
  proof (cases "is_Module n")
    case True
    with "1.prems" show ?thesis
      by (cases n) (simp add: current_module_loop.simps)
  next
    case False
    with "1.prems" obtain p where p: "parent n = Some p" and np: "nearest_module p = Some m"
      by (cases n; cases "parent n") auto
    from frame_nearest_module [OF np] obtain f where f: "frame p = Inr f"
      and nf: "nearest_module f = Some m" by blast
    from "1.IH" [OF False p f nf] False p f show ?thesis
      by (subst current_module_loop.simps) simp
  qed
qed

section \<open>The claims\<close>

subsection \<open>C1: a directly inferred class and a later string literal\<close>

text \<open>
  C1, as the code has it. The candidates are tried from left to right and the first one
  that succeeds ends the loop. A name or attribute candidate whose inference yields a
  class as its first value makes the resolver return an instance of that class at once,
  whatever candidates follow it; the structural match of a string literal is returned
  when the literal is reached first, that is, when every candidate before it passed.
\<close>

theorem first_success_ends_loop:
  assumes "all_args node = pre @ arg # rest" and "list_all (passes H d node) pre"
  shows "((kind arg = Name n \<or> kind arg = Attribute n)
            \<and> infer H arg = Yields (ClassValue c # vs)
            \<longrightarrow> infer_key_classes H d node = Inr [InstanceOf c])
       \<and> (kind arg = Const v \<and> textual_reference arg = Inr (module_name, model_name)
          \<and> module_hint H node module_name model_name = Inr hint
          \<and> cache_loop H d (astroid_cache H) model_name hint = Inr (Some found)
            \<longrightarrow> infer_key_classes H d node = Inr [InstanceOf found])"
proof -
  have top: "infer_key_classes H d node =
             infer_key_classes_loop H d node (key_cls_after Unbound pre) (arg # rest)"
    unfolding infer_key_classes_def assms(1) by (rule loop_passes [OF assms(2)])
  have direct: "infer_key_classes H d node = Inr [InstanceOf c]"
    if "kind arg = Name n \<or> kind arg = Attribute n"
      and "infer H arg = Yields (ClassValue c # vs)"
    unfolding top loop_inferred_value [OF that] by (simp add: after_loop_def)
  have literal: "infer_key_classes H d node = Inr [InstanceOf found]"
    if "kind arg = Const v" and "textual_reference arg = Inr (module_name, model_name)"
      and "module_hint H node module_name model_name = Inr hint"
      and "cache_loop H d (astroid_cache H) model_name hint = Inr (Some found)"
    unfolding top by (subst loop_const_step [OF that(1,2)]) (simp add: that(3,4))
  from direct literal show ?thesis by blast
qed

text \<open>In \<open>ForeignKey(X, A, "B")\<close> the name \<open>X\<close> cannot be inferred and \<open>A\<close> is
  inferred to the class \<open>A\<close>: the result is an instance of \<open>A\<close>. In
  \<open>ForeignKey(X, "B", A)\<close> it is an instance of \<open>B\<close>.\<close>

theorem first_success_ends_loop_witness:
  "all_args (ex_call [ex_name ''X'', ex_name ''A'', ex_str ''B''] [])
     = [ex_name ''X''] @ ex_name ''A'' # [ex_str ''B'']
   \<and> list_all (passes ex_host 10 (ex_call [ex_name ''X'', ex_name ''A'', ex_str ''B''] []))
        [ex_name ''X'']
   \<and> infer_key_classes ex_host 10 (ex_call [ex_name ''X'', ex_name ''A'', ex_str ''B''] [])
       = Inr [InstanceOf ex_class_A]
   \<and> all_args (ex_call [ex_name ''X'', ex_str ''B'', ex_name ''A''] [])
       = [ex_name ''X''] @ ex_str ''B'' # [ex_name ''A'']
   \<and> list_all (passes ex_host 10 (ex_call [ex_name ''X'', ex_str ''B'', ex_name ''A''] []))
        [ex_name ''X'']
   \<and> infer_key_classes ex_host 10 (ex_call [ex_name ''X'', ex_str ''B'', ex_name ''A''] [])
       = Inr [InstanceOf ex_class_B]"
  using
    first_success_ends_loop
      [of "ex_call [ex_name ''X'', ex_name ''A'', ex_str ''B''] []" "[ex_name ''X'']"
          "ex_name ''A''" "[ex_str ''B'']" ex_host 10 "''A''" ex_class_A "[]"]
    first_success_ends_loop
      [of "ex_call [ex_name ''X'', ex_str ''B'', ex_name ''A''] []" "[ex_name ''X'']"
          "ex_str ''B''" "[ex_name ''A'']" ex_host 10 _ _ _ "CStr ''B''" "[]" "''B''"
          "''app.models''" ex_class_B]
  by (simp add: passes_def all_args_def ex_defs textual_reference_def getattr_parent_def
      getattr_name_def module_hint_def is_frame_def current_module_loop.simps is_Module_def
      is_ClassDef_def rpartition_def endswith_def numeral_nat)

text \<open>
  C1 as stated fails. In \<open>ForeignKey(A, "B")\<close> inside a model of \<open>app.models\<close>, the
  name \<open>A\<close> is inferred to the class \<open>A\<close> and the literal \<open>"B"\<close> alone would be
  resolved to the class \<open>B\<close> of the module; the resolver returns an instance of \<open>A\<close>
  and never looks at the literal.
\<close>

theorem later_string_match_not_preferred:
  "all_args (ex_call [ex_name ''A'', ex_str ''B''] []) = [ex_name ''A'', ex_str ''B'']
   \<and> infer ex_host (ex_name ''A'') = Yields [ClassValue ex_class_A]
   \<and> infer_key_classes ex_host 10 (ex_call [ex_str ''B''] []) = Inr [InstanceOf ex_class_B]
   \<and> infer_key_classes ex_host 10 (ex_call [ex_name ''A'', ex_str ''B''] [])
       = Inr [InstanceOf ex_class_A]
   \<and> infer_key_classes ex_host 10 (ex_call [ex_name ''A'', ex_str ''B''] [])
       \<noteq> Inr [InstanceOf ex_class_B]"
  by (simp add: eval_defs ex_defs)

subsection \<open>C2: from-import forwarding and cycles\<close>




subsection \<open>C3: a constant that is not a string\<close>

text \<open>
  C3. The claim is what the \<open>except AttributeError: break\<close> of line 90 is there for,
  and the code misses it: \<open>break\<close> leaves the loop past its \<open>else\<close>, so line 134
  runs with a \<open>key_cls\<close> that holds no value. In \<open>ForeignKey(1)\<close> the variable was
  never assigned and the call raises \<open>UnboundLocalError\<close>; after a name that could
  not be inferred, as in \<open>ForeignKey(X, 1)\<close>, it is \<open>None\<close> and the call raises
  \<open>AttributeError\<close>. Neither is \<open>UseInferenceDefault\<close>.
\<close>

theorem integer_literal_raises_unbound_local:
  "is_foreignkey_in_class ex_host (ex_call [ex_int 1] [])
   \<and> infer_key_classes ex_host 10 (ex_call [ex_int 1] []) = Inl UnboundLocalError
   \<and> infer_key_classes ex_host 10 (ex_call [ex_name ''X'', ex_int 1] []) = Inl AttributeError"
  by (simp add: eval_defs ex_defs is_foreignkey_in_class_def)

text \<open>The same for every call: when the first candidate that does not pass is a constant
  whose \<open>try\<close> block raises \<open>AttributeError\<close>, the call raises one of the two
  errors.\<close>

lemma const_break_raises:
  assumes "all_args node = pre @ arg # rest" and "list_all (passes H d node) pre"
    and "kind arg = Const v" and "textual_reference arg = Inl AttributeError"
  shows "infer_key_classes H d node = Inl UnboundLocalError
       \<or> infer_key_classes H d node = Inl AttributeError"
proof -
  have "infer_key_classes H d node =
        infer_key_classes_loop H d node (key_cls_after Unbound pre) (arg # rest)"
    unfolding infer_key_classes_def assms(1) by (rule loop_passes [OF assms(2)])
  also have "\<dots> = after_loop (key_cls_after Unbound pre)"
    using assms(3,4) by simp
  finally show ?thesis
    using key_cls_after_Unbound [of pre] by (auto simp: after_loop_def)
qed

subsection \<open>C4: Django is not configured\<close>

text \<open>
  C4. For a string candidate \<open>prefix.className\<close> that the loop reaches, with a prefix
  that is not empty and does not end with \<open>models\<close>: when the registry of Django
  raises \<open>ImproperlyConfigured\<close>, the resolver raises \<open>RuntimeError\<close> with the message
  of lines 113 to 115, which starts with the name of the environment variable
  \<open>DJANGO_SETTINGS_MODULE\<close>. It does not fall back to default inference.
\<close>

theorem misconfigured_registry_is_fatal:
  assumes "kind arg = Const (CStr (prefix @ ''.'' @ className))"
    and "CHR ''.'' \<notin> set className"
    and "prefix \<noteq> []" and "\<not> endswith prefix ''models''"
    and "module_name_from_django_model_resolution H className prefix
           = Inl ImproperlyConfigured"
  shows "infer_key_classes_loop H d node key_cls (arg # rest)
           = Inl (RuntimeError settings_message)
       \<and> take 22 settings_message = ''DJANGO_SETTINGS_MODULE''
       \<and> infer_key_classes_loop H d node key_cls (arg # rest) \<noteq> Inl UseInferenceDefault"
proof -
  obtain p where arg: "arg = Node (Const (CStr (prefix @ ''.'' @ className))) p"
    using assms(1) by (cases arg) auto
  have tr: "textual_reference arg = Inr (prefix, className)"
    unfolding arg by (rule textual_reference_dotted [OF assms(2)])
  have mh: "module_hint H node prefix className = Inl (RuntimeError settings_message)"
    using assms(3,4,5) by (simp add: module_hint_def)
  have "infer_key_classes_loop H d node key_cls (arg # rest)
          = Inl (RuntimeError settings_message)"
    unfolding loop_const_step [OF assms(1) tr] mh by simp
  then show ?thesis by (simp add: settings_message_def)
qed

theorem misconfigured_registry_is_fatal_witness:
  "kind (ex_str ''auth.User'') = Const (CStr (''auth'' @ ''.'' @ ''User''))
   \<and> module_name_from_django_model_resolution ex_host ''User'' ''auth''
       = Inl ImproperlyConfigured
   \<and> infer_key_classes ex_host 10 (ex_call [ex_str ''auth.User''] [])
       = Inl (RuntimeError settings_message)
   \<and> take 22 settings_message = ''DJANGO_SETTINGS_MODULE''"
  using misconfigured_registry_is_fatal
    [of "ex_str ''auth.User''" "''auth''" "''User''" ex_host 10
        "ex_call [ex_str ''auth.User''] []" Unbound "[]"]
  by (simp add: infer_key_classes_def all_args_def ex_defs endswith_def
       module_name_from_django_model_resolution_def)

subsection \<open>C5: the module a result comes from\<close>




subsection \<open>C6: the app is not in the registry\<close>

text \<open>
  C6. For a string candidate \<open>prefix.className\<close> that the loop reaches, with a prefix
  that is not empty and does not end with \<open>models\<close>: when the registry of Django
  raises \<open>LookupError\<close>, the module hint is the prefix followed by \<open>.models\<close>, and
  the candidate goes on to the lookup in the cache with that hint: it yields an instance
  of the class found there, and the next candidate is tried only when none is found.
\<close>

theorem registry_not_found_appends_models:
  assumes "kind arg = Const (CStr (prefix @ ''.'' @ className))"
    and "CHR ''.'' \<notin> set className"
    and "prefix \<noteq> []" and "\<not> endswith prefix ''models''"
    and "module_name_from_django_model_resolution H className prefix = Inl LookupError"
  shows "module_hint H node prefix className = Inr (prefix @ ''.models'')
     \<and> infer_key_classes_loop H d node key_cls (arg # rest) =
        (case cache_loop H d (astroid_cache H) className (prefix @ ''.models'') of
           Inl e \<Rightarrow> Inl e
         | Inr (Some c) \<Rightarrow> Inr [InstanceOf c]
         | Inr None \<Rightarrow> infer_key_classes_loop H d node key_cls rest)"
proof -
  obtain p where arg: "arg = Node (Const (CStr (prefix @ ''.'' @ className))) p"
    using assms(1) by (cases arg) auto
  have tr: "textual_reference arg = Inr (prefix, className)"
    unfolding arg by (rule textual_reference_dotted [OF assms(2)])
  have mh: "module_hint H node prefix className = Inr (prefix @ ''.models'')"
    using assms(3,4,5) by (simp add: module_hint_def)
  show ?thesis
    unfolding loop_const_step [OF assms(1) tr] mh by simp
qed

theorem registry_not_found_appends_models_witness:
  "module_name_from_django_model_resolution ex_host_configured ''B'' ''otherapp''
     = Inl LookupError
   \<and> module_hint ex_host_configured (ex_call [ex_str ''otherapp.B''] []) ''otherapp'' ''B''
       = Inr ''otherapp.models''
   \<and> infer_key_classes ex_host_configured 10 (ex_call [ex_str ''otherapp.B''] [])
       = Inr [InstanceOf ex_other_B]"
  using registry_not_found_appends_models
    [of "ex_str ''otherapp.B''" "''otherapp''" "''B''" ex_host_configured
        "ex_call [ex_str ''otherapp.B''] []" 10 Unbound "[]"]
  by (simp add: infer_key_classes_def all_args_def ex_defs endswith_def
       module_name_from_django_model_resolution_def is_ClassDef_def numeral_nat)

subsection \<open>C7: the literal \<open>"self"\<close>\<close>




subsection \<open>C8: the call classifier\<close>

text \<open>
  C8. The call classifier \<open>is_foreignkey_in_class\<close> is true exactly when the parent of
  the call is an assignment, the parent of that assignment is a class, the class is a
  subclass of Django's base model (as \<open>node_is_subclass\<close> decides for the names
  \<open>django.db.models.base.Model\<close> and \<open>.Model\<close>), and the callee is an attribute
  access or a bare name whose name is \<open>ForeignKey\<close> or \<open>OneToOneField\<close>. It is a
  total function to \<open>bool\<close>: a missing parent and any other callee give \<open>False\<close>,
  no branch raises.
\<close>

theorem is_foreignkey_in_class_iff:
  "is_foreignkey_in_class H node \<longleftrightarrow>
     (\<exists>p pp. call_parent node = Some p \<and> kind p = Assign \<and> parent p = Some pp
        \<and> is_ClassDef pp
        \<and> node_is_subclass H pp [''django.db.models.base.Model'', ''.Model'']
        \<and> (\<exists>callee. (kind (func node) = Attribute callee \<or> kind (func node) = Name callee)
              \<and> callee \<in> {''ForeignKey'', ''OneToOneField''}))"
  by (auto simp: is_foreignkey_in_class_def split: option.splits node_kind.splits)

text \<open>The call of the example is accepted; the same call at module level is not.\<close>

theorem is_foreignkey_in_class_iff_witness:
  "is_foreignkey_in_class ex_host (ex_call [] [])
   \<and> \<not> is_foreignkey_in_class ex_host (ex_call [] [] \<lparr>call_parent := Some ex_module\<rparr>)"
  using is_foreignkey_in_class_iff [of ex_host "ex_call [] []"]
    is_foreignkey_in_class_iff [of ex_host "ex_call [] [] \<lparr>call_parent := Some ex_module\<rparr>"]
  by (simp add: ex_defs is_ClassDef_def)

subsection \<open>C9: the split at the last dot\<close>

text \<open>
  C9. A string candidate that is not \<open>"self"\<close> and contains a dot is split at its last
  dot: the value is \<open>prefix.className\<close> where \<open>className\<close> has no dot, and the
  \<open>try\<close> block yields \<open>prefix\<close> as the module name and \<open>className\<close> as the model
  name.
\<close>

theorem textual_reference_splits_at_last_dot:
  assumes "CHR ''.'' \<in> set s" and "s \<noteq> ''self''"
  shows "\<exists>prefix className.
           s = prefix @ ''.'' @ className \<and> CHR ''.'' \<notin> set className
           \<and> textual_reference (Node (Const (CStr s)) p) = Inr (prefix, className)"
proof -
  from split_list_last [OF assms(1)] obtain a b
    where s: "s = a @ CHR ''.'' # b" and nb: "CHR ''.'' \<notin> set b"
    by blast
  from textual_reference_dotted [OF nb, of a p] s nb show ?thesis by auto
qed

theorem textual_reference_splits_at_last_dot_witness:
  "CHR ''.'' \<in> set ''otherapp.models.B'' \<and> ''otherapp.models.B'' \<noteq> ''self''
   \<and> (\<exists>prefix className.
         ''otherapp.models.B'' = prefix @ ''.'' @ className \<and> CHR ''.'' \<notin> set className
         \<and> textual_reference (Node (Const (CStr ''otherapp.models.B'')) None)
             = Inr (prefix, className))
   \<and> textual_reference (Node (Const (CStr ''otherapp.models.B'')) None)
       = Inr (''otherapp.models'', ''B'')"
  using textual_reference_splits_at_last_dot [of "''otherapp.models.B''" None]
    textual_reference_dotted [of "''B''" "''otherapp.models''" None]
  by simp

subsection \<open>C10: a prefix that ends with \<open>models\<close>\<close>

text \<open>
  C10. For a string candidate \<open>prefix.className\<close> that the loop reaches: when the
  prefix ends with the characters \<open>models\<close>, with or without a dot before them, the
  module hint is the prefix itself for every host, whatever its registry would answer,
  and the candidate goes to the lookup in the cache with it. The registry decides the
  hint only for a prefix that is not empty and does not end with \<open>models\<close>.
\<close>

theorem models_suffix_skips_registry:
  assumes "kind arg = Const (CStr (prefix @ ''.'' @ className))"
    and "CHR ''.'' \<notin> set className"
  shows "(endswith prefix ''models'' \<longrightarrow>
            module_hint H node prefix className = Inr prefix
          \<and> infer_key_classes_loop H d node key_cls (arg # rest) =
              (case cache_loop H d (astroid_cache H) className prefix of
                 Inl e \<Rightarrow> Inl e
               | Inr (Some c) \<Rightarrow> Inr [InstanceOf c]
               | Inr None \<Rightarrow> infer_key_classes_loop H d node key_cls rest))
       \<and> (prefix \<noteq> [] \<and> \<not> endswith prefix ''models'' \<longrightarrow>
            module_hint H node prefix className =
              (case module_name_from_django_model_resolution H className prefix of
                 Inr resolved \<Rightarrow> Inr resolved
               | Inl LookupError \<Rightarrow> Inr (prefix @ ''.models'')
               | Inl ImproperlyConfigured \<Rightarrow> Inl (RuntimeError settings_message)
               | Inl e \<Rightarrow> Inl e))"
proof -
  obtain p where arg: "arg = Node (Const (CStr (prefix @ ''.'' @ className))) p"
    using assms(1) by (cases arg) auto
  have tr: "textual_reference arg = Inr (prefix, className)"
    unfolding arg by (rule textual_reference_dotted [OF assms(2)])
  have ne: "prefix \<noteq> []" if "endswith prefix ''models''"
    using that by (auto simp: endswith_def)
  have mh: "module_hint H node prefix className = Inr prefix" if "endswith prefix ''models''"
    using that ne [OF that] by (simp add: module_hint_def)
  have step: "infer_key_classes_loop H d node key_cls (arg # rest) =
              (case cache_loop H d (astroid_cache H) className prefix of
                 Inl e \<Rightarrow> Inl e
               | Inr (Some c) \<Rightarrow> Inr [InstanceOf c]
               | Inr None \<Rightarrow> infer_key_classes_loop H d node key_cls rest)"
    if "endswith prefix ''models''"
    unfolding loop_const_step [OF assms(1) tr] mh [OF that] by simp
  have registry: "module_hint H node prefix className =
              (case module_name_from_django_model_resolution H className prefix of
                 Inr resolved \<Rightarrow> Inr resolved
               | Inl LookupError \<Rightarrow> Inr (prefix @ ''.models'')
               | Inl ImproperlyConfigured \<Rightarrow> Inl (RuntimeError settings_message)
               | Inl e \<Rightarrow> Inl e)"
    if "prefix \<noteq> []" and "\<not> endswith prefix ''models''"
    using that by (simp add: module_hint_def)
  from mh step registry show ?thesis by blast
qed

text \<open>\<open>ForeignKey("custommodels.B")\<close> on a host without Django settings: no error, the
  class comes from the module \<open>custommodels\<close>.\<close>

theorem models_suffix_skips_registry_witness:
  "endswith ''custommodels'' ''models'' \<and> \<not> django_configured ex_host_two_apps
   \<and> module_hint ex_host_two_apps (ex_call [ex_str ''custommodels.B''] []) ''custommodels'' ''B''
       = Inr ''custommodels''
   \<and> infer_key_classes ex_host_two_apps 10 (ex_call [ex_str ''custommodels.B''] [])
       = Inr [InstanceOf ex_custom_B]"
  using models_suffix_skips_registry
    [of "ex_str ''custommodels.B''" "''custommodels''" "''B''" ex_host_two_apps
        "ex_call [ex_str ''custommodels.B''] []" 10 Unbound "[]"]
  by (simp add: infer_key_classes_def all_args_def ex_defs endswith_def
       module_name_from_django_model_resolution_def is_ClassDef_def numeral_nat)

end
